theory Spec2Isabelle
  imports Complex_Main
begin

section \<open>Data model of DQNAgent.py\<close>

text \<open>
  Python exceptions that the modelled code can raise. \<open>ValueError\<close> comes from
  \<^verbatim>\<open>random.sample\<close> (sample larger than population or negative), \<open>TypeError\<close>
  from calling the \<^verbatim>\<open>Transition\<close> constructor with too few arguments,
  \<open>AssertionError\<close> from the \<^verbatim>\<open>assert\<close> in \<^verbatim>\<open>Runner.get_recent_states\<close>
  and \<open>ZeroDivisionError\<close> from \<^verbatim>\<open>/\<close> and \<^verbatim>\<open>%\<close> with a zero divisor;
  \<open>UnboundLocalError\<close> is what reading a local variable before its first assignment
  raises.
\<close>

datatype error = ValueError | TypeError | AssertionError | ZeroDivisionError | UnboundLocalError

text \<open>
  \<^verbatim>\<open>Transition = namedtuple('Transition', ('state', 'action', 'next_state', 'reward', 'done'))\<close>.
  The same named tuple holds one transition (scalar fields) and a sampled batch
  (each field a tuple of values), so the field types are parameters. The field
  \<^verbatim>\<open>done\<close> is written \<open>done_flag\<close>.
\<close>

record ('s, 'a, 'r, 'd) Transition =
  state :: 's
  action :: 'a
  next_state :: 's
  reward :: 'r
  done_flag :: 'd

subsection \<open>\<^verbatim>\<open>collections.deque(maxlen=n)\<close>\<close>

text \<open>
  \<^verbatim>\<open>deque.append\<close> on a bounded deque adds the item on the right and then, if the
  deque is longer than \<open>maxlen\<close>, drops one item from the left.
\<close>

definition deque_append :: "nat \<Rightarrow> 'a list \<Rightarrow> 'a \<Rightarrow> 'a list" where
  "deque_append maxlen dq x =
     (let dq' = dq @ [x] in if maxlen < length dq' then tl dq' else dq')"

subsection \<open>ReplayMemory\<close>

record 't ReplayMemory =
  capacity :: nat
  memory :: "'t list"

definition ReplayMemory_init :: "nat \<Rightarrow> 't ReplayMemory" where
  "ReplayMemory_init cap = \<lparr>capacity = cap, memory = []\<rparr>"

definition push :: "'t ReplayMemory \<Rightarrow> 't \<Rightarrow> 't ReplayMemory" where
  "push m t = m\<lparr>memory := deque_append (capacity m) (memory m) t\<rparr>"

definition len :: "'t ReplayMemory \<Rightarrow> nat" where
  "len m = length (memory m)"

text \<open>A sequence of pushes, first element pushed first.\<close>

definition pushes :: "'t ReplayMemory \<Rightarrow> 't list \<Rightarrow> 't ReplayMemory" where
  "pushes m ts = foldl push m ts"

subsection \<open>The frame stack of \<^verbatim>\<open>Runner\<close>\<close>

text \<open>
  \<^verbatim>\<open>self.frame_stacker = deque(maxlen=frame_stack)\<close>; frames are appended one at a
  time and \<^verbatim>\<open>get_recent_states\<close> asserts that the deque holds exactly
  \<open>frame_stack\<close> frames before returning them as an array.
\<close>

definition get_recent_states :: "nat \<Rightarrow> 'f list \<Rightarrow> error + 'f list" where
  "get_recent_states frame_stack frame_stacker =
     (if length frame_stacker = frame_stack then Inr frame_stacker else Inl AssertionError)"

text \<open>The frame stacker after \<^verbatim>\<open>clear()\<close> followed by appending the frames of a list in order.\<close>

definition stack_frames :: "nat \<Rightarrow> 'f list \<Rightarrow> 'f list" where
  "stack_frames frame_stack fs = foldl (deque_append frame_stack) [] fs"

subsection \<open>\<^verbatim>\<open>ReplayMemory.sample\<close>\<close>

text \<open>
  \<^verbatim>\<open>random.sample(population, k)\<close> of the standard library raises \<open>ValueError\<close>
  unless \<open>0 \<le> k \<le> len(population)\<close> and otherwise draws \<open>k\<close> times without
  replacement, each time picking one of the positions not yet picked:
  \<^verbatim>\<open>pool = list(population); for i in range(k): j = randbelow(n - i);
  result[i] = pool[j]; pool[j] = pool[n - i - 1]\<close>, where only the first
  \<open>n - i\<close> entries of the pool are still in use. (For a large population the
  library keeps the set of selected positions instead and redraws a position until
  it is unselected, which is the same choice among the unselected positions.)
  The only source of randomness is \<^verbatim>\<open>randbelow(m)\<close>, which returns a value
  below \<open>m\<close>, uniformly distributed by the generator's contract; here it reduces
  the generator's raw output at that call.
\<close>

definition randbelow :: "nat \<Rightarrow> nat \<Rightarrow> nat" where
  "randbelow m r = r mod m"

text \<open>
  The selection loop on the part of the pool in use and the raw outputs of the
  generator, one for each iteration. The loop runs \<open>k \<le> n\<close> times, so it never
  meets an empty pool.
\<close>

fun select :: "'a list \<Rightarrow> nat list \<Rightarrow> 'a list" where
  "select pool [] = []"
| "select pool (r # rs) =
     (if pool = [] then []
      else let j = randbelow (length pool) r
           in pool ! j # select (butlast (pool[j := last pool])) rs)"

definition random_sample :: "'a list \<Rightarrow> int \<Rightarrow> (nat \<Rightarrow> nat) \<Rightarrow> error + 'a list" where
  "random_sample population k raw =
     (if \<not> (0 \<le> k \<and> k \<le> int (length population)) then Inl ValueError
      else Inr (select population (map raw [0 ..< nat k])))"


fun draws_in_range :: "nat \<Rightarrow> nat list \<Rightarrow> bool" where
  "draws_in_range m [] = True"
| "draws_in_range m (d # ds) = (d < m \<and> draws_in_range (m - 1) ds)"


text \<open>
  \<^verbatim>\<open>Transition(*(zip(*batch)))\<close> turns a list of transitions into one
  \<^verbatim>\<open>Transition\<close> of columns. For an empty batch \<^verbatim>\<open>zip()\<close> yields nothing and
  the constructor, called without its five arguments, raises \<open>TypeError\<close>.
\<close>

definition transpose_batch ::
  "('s, 'a, 'r, 'd) Transition list \<Rightarrow>
   error + ('s list, 'a list, 'r list, 'd list) Transition" where
  "transpose_batch batch =
     (if batch = [] then Inl TypeError
      else Inr \<lparr>state = map state batch, action = map action batch,
                next_state = map next_state batch, reward = map reward batch,
                done_flag = map done_flag batch\<rparr>)"

text \<open>
  \<^verbatim>\<open>sample\<close> reads a copy of the deque (\<^verbatim>\<open>list(self.memory)\<close>); the memory
  object is returned next to the result to make its state after the call explicit.
\<close>

definition sample ::
  "('s, 'a, 'r, 'd) Transition ReplayMemory \<Rightarrow> int \<Rightarrow> (nat \<Rightarrow> nat) \<Rightarrow>
   (error + ('s list, 'a list, 'r list, 'd list) Transition) \<times>
   ('s, 'a, 'r, 'd) Transition ReplayMemory" where
  "sample m batch_size raw =
     (case random_sample (memory m) batch_size raw of
        Inl e \<Rightarrow> (Inl e, m)
      | Inr batch \<Rightarrow> (transpose_batch batch, m))"


subsection \<open>The exploration schedule of \<^verbatim>\<open>Trainer.set_eps\<close>\<close>

text \<open>
  \<^verbatim>\<open>np.max([0.01, (0.01 + 0.99 * (1 - self.total_steps/self.final_exp_frame))])\<close>.
  Python floats are idealised as real numbers. \<open>total_steps\<close> is a counter that
  starts at 0 and is only incremented; \<open>final_exp_frame\<close> is a constructor argument
  (an integer, 100000 by default), and the true division raises
  \<open>ZeroDivisionError\<close> when it is 0.
\<close>

definition decay :: "nat \<Rightarrow> int \<Rightarrow> real" where
  "decay total_steps final_exp_frame =
     max 0.01 (0.01 + 0.99 * (1 - real total_steps / real_of_int final_exp_frame))"

definition decaySchedule :: "nat \<Rightarrow> int \<Rightarrow> error + real" where
  "decaySchedule total_steps final_exp_frame =
     (if final_exp_frame = 0 then Inl ZeroDivisionError
      else Inr (decay total_steps final_exp_frame))"

section \<open>The training loop\<close>

subsection \<open>Configuration, collaborators and state\<close>

text \<open>
  The constructor arguments of \<^verbatim>\<open>Trainer\<close> and \<^verbatim>\<open>DQNAgent\<close> that the episode
  reads. \<open>frame_stack\<close> and \<open>memory_size\<close> are the \<open>maxlen\<close> of a deque, which
  rejects a negative value at construction; the others are Python integers.
\<close>

record config =
  frame_stack :: nat
  memory_size :: nat
  max_ep_steps :: int
  batch_size :: int
  num_samples_pre :: int
  reset_target :: int
  final_exp_frame :: int
  save_freq :: int

text \<open>
  What the episode calls but this repository does not define: the environment
  (\<^verbatim>\<open>reset_game\<close>, \<^verbatim>\<open>game_over\<close>, \<^verbatim>\<open>act\<close>, and \<open>get_screen\<close> for
  \<^verbatim>\<open>preprocess_image(getScreenGrayscale())\<close>) over an environment state \<open>'e\<close>
  with frames \<open>'f\<close> and actions \<open>'a\<close>; the outcome of \<^verbatim>\<open>DQNAgent.get_action\<close>,
  which depends on the random number generator (indexed here by the total step
  count, which is different at every call), the online parameters, \<open>eps\<close> and the
  stacked frames; the raw outputs of the generator during a call of \<^verbatim>\<open>random.sample\<close>
  (indexed by the total step count, the population size and the sample size); the value of
  \<^verbatim>\<open>DQNLoss.forward\<close> on the online and target parameters and a batch; and the
  effect of \<^verbatim>\<open>zero_grad(); loss.backward(); optimizer.step()\<close>. The optimizer is
  constructed from \<^verbatim>\<open>self.agent.q_network.parameters()\<close> only, so its step
  returns new online parameters and a new optimizer state.
\<close>

record ('e, 'f, 'a, 'p, 'o) world =
  reset_game :: "'e \<Rightarrow> 'e"
  game_over :: "'e \<Rightarrow> bool"
  act :: "'a option \<Rightarrow> 'e \<Rightarrow> real \<times> 'e"
  get_screen :: "'e \<Rightarrow> 'f"
  get_action :: "nat \<Rightarrow> 'p \<Rightarrow> real \<Rightarrow> 'f list \<Rightarrow> 'a"
  rng_sample :: "nat \<Rightarrow> nat \<Rightarrow> int \<Rightarrow> nat \<Rightarrow> nat"
  DQNLoss :: "'p \<Rightarrow> 'p \<Rightarrow> ('f list list, 'a option list, real list, bool list) Transition
              \<Rightarrow> error + real"
  optimizer_step :: "'o \<Rightarrow> 'p \<Rightarrow> 'p \<Rightarrow>
              ('f list list, 'a option list, real list, bool list) Transition \<Rightarrow> 'p \<times> 'o"

text \<open>
  The mutable state of a \<^verbatim>\<open>Trainer\<close> and its agent. An action is \<open>None\<close> for the
  \<^verbatim>\<open>None\<close> passed to the environment while the frame stack fills and \<open>Some a\<close>
  for a result of \<^verbatim>\<open>get_action\<close>. \<open>tb_writer\<close> is the series written by
  \<^verbatim>\<open>add_scalar\<close>: step, loss, mean of \<open>reward_per_ep\<close> (nothing for the empty
  list) and epsilon. \<open>saved_models\<close> lists the step counts and parameters given to
  \<^verbatim>\<open>torch.save\<close>.
\<close>

record ('e, 'f, 'a, 'p, 'o) trainer =
  env :: 'e
  frame_stacker :: "'f list"
  trainer_memory :: "('f list, 'a option, real, bool) Transition ReplayMemory"
  total_steps :: nat
  eps :: real
  q_network :: 'p
  q_target :: 'p
  optimizer :: 'o
  reward_per_ep :: "real list"
  tb_writer :: "(nat \<times> real \<times> real option \<times> real) list"
  saved_models :: "(nat \<times> 'p) list"

text \<open>
  \<^verbatim>\<open>DQNAgent.__init__\<close>, \<^verbatim>\<open>Runner.__init__\<close> and \<^verbatim>\<open>Trainer.__init__\<close>: the two
  networks are constructed independently, \<open>eps\<close> is 1.0, and the memory, built
  by the constructor's \<^verbatim>\<open>memory_func\<close> (taken to be \<^verbatim>\<open>ReplayMemory\<close>), is empty.
\<close>

definition Trainer_init ::
  "config \<Rightarrow> 'e \<Rightarrow> 'p \<Rightarrow> 'p \<Rightarrow> 'o \<Rightarrow> ('e, 'f, 'a, 'p, 'o) trainer" where
  "Trainer_init c e online target opt =
     \<lparr>env = e, frame_stacker = [], trainer_memory = ReplayMemory_init (memory_size c),
      total_steps = 0, eps = 1, q_network = online, q_target = target, optimizer = opt,
      reward_per_ep = [], tb_writer = [], saved_models = []\<rparr>"

subsection \<open>Methods\<close>

text \<open>\<^verbatim>\<open>self.q_target.load_state_dict(self.q_network.state_dict())\<close> copies the values.\<close>

definition update_target :: "('e, 'f, 'a, 'p, 'o) trainer \<Rightarrow> ('e, 'f, 'a, 'p, 'o) trainer" where
  "update_target s = s\<lparr>q_target := q_network s\<rparr>"

definition set_eps ::
  "config \<Rightarrow> ('e, 'f, 'a, 'p, 'o) trainer \<Rightarrow> error + ('e, 'f, 'a, 'p, 'o) trainer" where
  "set_eps c s =
     (case decaySchedule (total_steps s) (final_exp_frame c) of
        Inl e \<Rightarrow> Inl e
      | Inr v \<Rightarrow> Inr (s\<lparr>eps := v\<rparr>))"

definition save_model :: "('e, 'f, 'a, 'p, 'o) trainer \<Rightarrow> ('e, 'f, 'a, 'p, 'o) trainer" where
  "save_model s = s\<lparr>saved_models := saved_models s @ [(total_steps s, q_network s)]\<rparr>"

text \<open>\<^verbatim>\<open>np.clip(reward, -1.0, 1.0)\<close> and \<^verbatim>\<open>np.mean\<close>.\<close>

definition clip :: "real \<Rightarrow> real" where
  "clip r = min (max r (- 1)) 1"

definition mean :: "real list \<Rightarrow> real option" where
  "mean xs = (if xs = [] then None else Some (sum_list xs / real (length xs)))"

subsection \<open>One iteration of the loop of \<^verbatim>\<open>Trainer.episode\<close>\<close>

text \<open>
  Lines 186 to 201: choose the action, act, clip the reward, append the new frame,
  record a transition when \<open>steps > frame_stack\<close>, and count the step. The locals
  \<^verbatim>\<open>action\<close> and \<^verbatim>\<open>reward\<close> are written \<open>action'\<close> and \<open>reward'\<close>. The local
  \<^verbatim>\<open>psi_state\<close> is assigned in this iteration exactly when \<open>steps \<ge> frame_stack\<close>.
\<close>

definition env_step ::
  "config \<Rightarrow> ('e, 'f, 'a, 'p, 'o) world \<Rightarrow> nat \<Rightarrow> ('e, 'f, 'a, 'p, 'o) trainer \<Rightarrow>
   error + (real \<times> ('e, 'f, 'a, 'p, 'o) trainer)" where
  "env_step c w steps s =
     (case (if steps < frame_stack c then Inr (None, None)
            else (case get_recent_states (frame_stack c) (frame_stacker s) of
                    Inl e \<Rightarrow> Inl e
                  | Inr psi \<Rightarrow>
                      Inr (Some psi,
                           Some (get_action w (total_steps s) (q_network s) (eps s) psi)))) of
        Inl e \<Rightarrow> Inl e
      | Inr (psi_state, action') \<Rightarrow>
          (case act w action' (env s) of
             (r, env') \<Rightarrow>
               let reward' = clip r;
                   s1 = s\<lparr>env := env',
                          frame_stacker :=
                            deque_append (frame_stack c) (frame_stacker s) (get_screen w env')\<rparr>
               in if frame_stack c < steps then
                    (case get_recent_states (frame_stack c) (frame_stacker s1) of
                       Inl e \<Rightarrow> Inl e
                     | Inr psi_next_state \<Rightarrow>
                         (case psi_state of
                            None \<Rightarrow> Inl UnboundLocalError
                          | Some psi \<Rightarrow>
                              Inr (reward',
                                   s1\<lparr>trainer_memory :=
                                        push (trainer_memory s1)
                                          \<lparr>state = psi, action = action',
                                           next_state = psi_next_state, reward = reward',
                                           done_flag = game_over w env'\<rparr>,
                                      total_steps := Suc (total_steps s1)\<rparr>)))
                  else Inr (reward', s1\<lparr>total_steps := Suc (total_steps s1)\<rparr>)))"

text \<open>
  Lines 204 to 226: the learning step. \<^verbatim>\<open>%\<close> raises \<open>ZeroDivisionError\<close> for a
  zero divisor and otherwise agrees with \<open>mod\<close> on integers.
\<close>

definition learn ::
  "config \<Rightarrow> ('e, 'f, 'a, 'p, 'o) world \<Rightarrow> ('e, 'f, 'a, 'p, 'o) trainer \<Rightarrow>
   error + ('e, 'f, 'a, 'p, 'o) trainer" where
  "learn c w s =
     (case set_eps c s of
        Inl e \<Rightarrow> Inl e
      | Inr s1 \<Rightarrow>
          (case sample (trainer_memory s1) (batch_size c)
                  (rng_sample w (total_steps s1) (len (trainer_memory s1)) (batch_size c)) of
             (Inl e, m) \<Rightarrow> Inl e
           | (Inr trans_batch, m) \<Rightarrow>
               (case DQNLoss w (q_network s1) (q_target s1) trans_batch of
                  Inl e \<Rightarrow> Inl e
                | Inr loss \<Rightarrow>
                    (case optimizer_step w (optimizer s1) (q_network s1) (q_target s1)
                            trans_batch of
                       (online, opt) \<Rightarrow>
                         let s2 = s1\<lparr>trainer_memory := m, q_network := online,
                                      optimizer := opt\<rparr>
                         in if reset_target c = 0 then Inl ZeroDivisionError
                            else
                              let s3 = (if int (total_steps s2) mod reset_target c = 0
                                        then update_target s2 else s2);
                                  s4 = s3\<lparr>tb_writer := tb_writer s3 @
                                         [(total_steps s3, loss, mean (reward_per_ep s3),
                                           eps s3)]\<rparr>;
                                  s5 = (if int (total_steps s4) mod 1000 = 0
                                        then s4\<lparr>reward_per_ep := []\<rparr> else s4)
                              in if save_freq c = 0 then Inl ZeroDivisionError
                                 else Inr (if int (total_steps s5) mod save_freq c = 0
                                           then save_model s5 else s5)))))"

text \<open>
  The whole loop body: after the environment step, line 202 skips the rest of the
  iteration (\<^verbatim>\<open>continue\<close>) when \<^verbatim>\<open>len(self.memory) <= self.num_samples_pre\<close>.
\<close>

definition loop_body ::
  "config \<Rightarrow> ('e, 'f, 'a, 'p, 'o) world \<Rightarrow> nat \<Rightarrow> ('e, 'f, 'a, 'p, 'o) trainer \<Rightarrow>
   error + (real \<times> ('e, 'f, 'a, 'p, 'o) trainer)" where
  "loop_body c w steps s =
     (case env_step c w steps s of
        Inl e \<Rightarrow> Inl e
      | Inr (reward', s1) \<Rightarrow>
          if int (len (trainer_memory s1)) \<le> num_samples_pre c then Inr (reward', s1)
          else (case learn c w s1 of
                  Inl e \<Rightarrow> Inl e
                | Inr s2 \<Rightarrow> Inr (reward', s2)))"

subsection \<open>\<^verbatim>\<open>Trainer.episode\<close> and \<^verbatim>\<open>Trainer.run_experiment\<close>\<close>

text \<open>
  \<^verbatim>\<open>while self.env.game_over() is False and steps < self.max_ep_steps\<close>, with the
  locals \<open>steps\<close> and \<open>rewards\<close>. The loop ends because \<open>steps\<close> grows by one in each
  iteration.
\<close>

function episode_loop ::
  "config \<Rightarrow> ('e, 'f, 'a, 'p, 'o) world \<Rightarrow> nat \<Rightarrow> real list \<Rightarrow> ('e, 'f, 'a, 'p, 'o) trainer \<Rightarrow>
   error + (real list \<times> ('e, 'f, 'a, 'p, 'o) trainer)" where
  "episode_loop c w steps rewards s =
     (if \<not> game_over w (env s) \<and> int steps < max_ep_steps c then
        (case loop_body c w steps s of
           Inl e \<Rightarrow> Inl e
         | Inr (reward', s') \<Rightarrow> episode_loop c w (Suc steps) (rewards @ [reward']) s')
      else Inr (rewards, s))"
  by pat_completeness auto
termination
  by (relation "measure (\<lambda>(c, w, steps, rewards, s). nat (max_ep_steps c - int steps))") auto

definition episode ::
  "config \<Rightarrow> ('e, 'f, 'a, 'p, 'o) world \<Rightarrow> ('e, 'f, 'a, 'p, 'o) trainer \<Rightarrow>
   error + ('e, 'f, 'a, 'p, 'o) trainer" where
  "episode c w s =
     (let env0 = reset_game w (env s);
          s0 = s\<lparr>env := env0,
                 frame_stacker := deque_append (frame_stack c) [] (get_screen w env0)\<rparr>
      in case episode_loop c w 0 [] s0 of
           Inl e \<Rightarrow> Inl e
         | Inr (rewards, s') \<Rightarrow>
             Inr (s'\<lparr>reward_per_ep := reward_per_ep s' @ [sum_list rewards]\<rparr>))"

fun run_experiment ::
  "config \<Rightarrow> ('e, 'f, 'a, 'p, 'o) world \<Rightarrow> nat \<Rightarrow> ('e, 'f, 'a, 'p, 'o) trainer \<Rightarrow>
   error + ('e, 'f, 'a, 'p, 'o) trainer" where
  "run_experiment c w 0 s = Inr s"
| "run_experiment c w (Suc n) s =
     (case episode c w s of
        Inl e \<Rightarrow> Inl e
      | Inr s' \<Rightarrow> run_experiment c w n s')"

section \<open>Predicates on recorded transitions\<close>

text \<open>
  A transition as the training loop should record it: the action was chosen by
  \<^verbatim>\<open>get_action\<close> (it is not the \<^verbatim>\<open>None\<close> of the warm-up) and both stacked
  observations hold \<open>K\<close> frames.
\<close>

definition recorded_ok :: "nat \<Rightarrow> ('f list, 'a option, real, bool) Transition \<Rightarrow> bool" where
  "recorded_ok K t = (action t \<noteq> None \<and> length (state t) = K \<and> length (next_state t) = K)"

section \<open>Concrete configurations\<close>

text \<open>
  The default arguments of \<^verbatim>\<open>Trainer.__init__\<close> and \<^verbatim>\<open>DQNAgent.__init__\<close>.
\<close>

definition default_config :: config where
  "default_config =
     \<lparr>frame_stack = 4, memory_size = 50000, max_ep_steps = 1000000, batch_size = 32,
      num_samples_pre = 30000, reset_target = 10000, final_exp_frame = 100000,
      save_freq = 100000\<rparr>"

text \<open>
  A stub environment that terminates after \<open>n\<close> calls of \<^verbatim>\<open>act\<close>: its state counts
  the calls since the last reset. The rewards and the other collaborators are those
  of the world it is built from.
\<close>

definition stub_env ::
  "nat \<Rightarrow> (nat, 'f, 'a, 'p, 'o) world \<Rightarrow> (nat, 'f, 'a, 'p, 'o) world" where
  "stub_env n w =
     w\<lparr>reset_game := (\<lambda>e. 0), game_over := (\<lambda>e. n \<le> e),
       act := (\<lambda>a e. (fst (act w a e), Suc e))\<rparr>"

text \<open>
  A small deterministic world: the frame shown is the call count, the policy
  alternates between two actions, the reward is 2 for the first of them, the loss
  is 0 and an optimizer step increments a counter standing for the online
  parameters and one standing for the optimizer state.
\<close>

definition counting_world :: "(nat, nat, bool, nat, nat) world" where
  "counting_world =
     \<lparr>reset_game = (\<lambda>e. 0), game_over = (\<lambda>e. False),
      act = (\<lambda>a e. (if a = Some True then 2 else 0, Suc e)), get_screen = (\<lambda>e. e),
      get_action = (\<lambda>t p x psi. even t), rng_sample = (\<lambda>t n k i. t + i),
      DQNLoss = (\<lambda>p q b. Inr 0), optimizer_step = (\<lambda>opt p q b. (Suc p, Suc opt))\<rparr>"



text \<open>States and configurations for concrete runs in the counting world.\<close>

definition fresh_trainer :: "(nat, nat, bool, nat, nat) trainer" where
  "fresh_trainer = Trainer_init default_config 0 5 1 0"

text \<open>The state reached by an episode of ten steps on the stub environment.\<close>

definition stub_episode_result :: "(nat, nat, bool, nat, nat) trainer" where
  "stub_episode_result =
     \<lparr>env = 10, frame_stacker = [7, 8, 9, 10],
      trainer_memory =
        \<lparr>capacity = 50000,
         memory =
           [\<lparr>state = [2, 3, 4, 5], action = Some False, next_state = [3, 4, 5, 6],
             reward = 0, done_flag = False\<rparr>,
            \<lparr>state = [3, 4, 5, 6], action = Some True, next_state = [4, 5, 6, 7],
             reward = 1, done_flag = False\<rparr>,
            \<lparr>state = [4, 5, 6, 7], action = Some False, next_state = [5, 6, 7, 8],
             reward = 0, done_flag = False\<rparr>,
            \<lparr>state = [5, 6, 7, 8], action = Some True, next_state = [6, 7, 8, 9],
             reward = 1, done_flag = False\<rparr>,
            \<lparr>state = [6, 7, 8, 9], action = Some False, next_state = [7, 8, 9, 10],
             reward = 0, done_flag = True\<rparr>]\<rparr>,
      total_steps = 10, eps = 1, q_network = 5, q_target = 1, optimizer = 0,
      reward_per_ep = [3], tb_writer = [], saved_models = []\<rparr>"

text \<open>
  A state in the middle of an episode (step 5 of the loop, full frame stack, empty
  memory) and the state after the environment step taken there.
\<close>

definition boundary_state :: "(nat, nat, bool, nat, nat) trainer" where
  "boundary_state = (Trainer_init default_config 5 5 1 0)\<lparr>frame_stacker := [2, 3, 4, 5]\<rparr>"

definition boundary_after :: "(nat, nat, bool, nat, nat) trainer" where
  "boundary_after =
     \<lparr>env = 6, frame_stacker = [3, 4, 5, 6],
      trainer_memory =
        \<lparr>capacity = 50000,
         memory = [\<lparr>state = [2, 3, 4, 5], action = Some True, next_state = [3, 4, 5, 6],
                    reward = 1, done_flag = False\<rparr>]\<rparr>,
      total_steps = 1, eps = 1, q_network = 5, q_target = 1, optimizer = 0,
      reward_per_ep = [], tb_writer = [], saved_models = []\<rparr>"

text \<open>The state after that step when the learning step runs and the target is synchronized.\<close>

definition learned_after :: "(nat, nat, bool, nat, nat) trainer" where
  "learned_after =
     boundary_after\<lparr>eps := 9999901 / 10000000, q_network := 6, q_target := 6,
       optimizer := 1, tb_writer := [(1, 0, None, 9999901 / 10000000)]\<rparr>"

text \<open>
  Configurations differing from the default in the pre-fill threshold, the batch
  size and the synchronization period.
\<close>

definition boundary_config :: config where
  "boundary_config = default_config\<lparr>num_samples_pre := 1, batch_size := 1\<rparr>"

definition learning_config :: config where
  "learning_config =
     default_config\<lparr>num_samples_pre := 0, batch_size := 1, reset_target := 1\<rparr>"

definition failing_config :: config where
  "failing_config = default_config\<lparr>num_samples_pre := 0\<rparr>"

section \<open>Bounded deques\<close>

lemma deque_append_length:
  "length (deque_append n dq x) = (if n < Suc (length dq) then length dq else Suc (length dq))"
  by (simp add: deque_append_def Let_def)

lemma deque_append_length_le:
  "length dq \<le> n \<Longrightarrow> length (deque_append n dq x) \<le> n"
  by (simp add: deque_append_length)

lemma deque_append_mono: "length dq \<le> length (deque_append n dq x)"
  by (simp add: deque_append_length)

lemma deque_append_drop:
  assumes "length dq \<le> n"
  shows "deque_append n dq x = drop (Suc (length dq) - n) (dq @ [x])"
proof (cases "n < Suc (length dq)")
  case True
  with assms have one: "Suc (length dq) - n = Suc 0" by simp
  have "drop (Suc 0) (dq @ [x]) = tl (dq @ [x])" by (simp only: drop_Suc drop_0)
  with True one show ?thesis by (simp only: deque_append_def Let_def length_append_singleton if_True)
next
  case False
  then show ?thesis by (simp add: deque_append_def Let_def)
qed

lemma foldl_deque_append:
  "length dq \<le> n \<Longrightarrow>
   foldl (deque_append n) dq xs = drop (length dq + length xs - n) (dq @ xs)"
proof (induction xs arbitrary: dq)
  case Nil
  then show ?case by simp
next
  case (Cons x xs)
  let ?dq = "deque_append n dq x"
  have le: "length ?dq \<le> n" using Cons.prems by (rule deque_append_length_le)
  have "foldl (deque_append n) dq (x # xs) = foldl (deque_append n) ?dq xs" by simp
  also have "\<dots> = drop (length ?dq + length xs - n) (?dq @ xs)"
    using le by (rule Cons.IH)
  also have "\<dots> = drop (length dq + length (x # xs) - n) (dq @ x # xs)"
  proof (cases "n < Suc (length dq)")
    case True
    with Cons.prems have n: "length dq = n" by simp
    with True have dq: "?dq = tl (dq @ [x])" by (simp add: deque_append_def Let_def)
    have len: "length ?dq = n" using n by (simp add: deque_append_length)
    have "drop (length xs) (tl (dq @ [x]) @ xs) = drop (Suc (length xs)) ((dq @ [x]) @ xs)"
      by (cases dq) (simp_all add: drop_Suc)
    then show ?thesis using n len dq by simp
  next
    case False
    then have dq: "?dq = dq @ [x]" by (simp add: deque_append_def Let_def)
    then show ?thesis by simp
  qed
  finally show ?case .
qed

lemma pushes_capacity: "capacity (pushes m ts) = capacity m"
  unfolding pushes_def by (induction ts arbitrary: m) (simp_all add: push_def)

lemma pushes_memory:
  "memory (pushes m ts) = foldl (deque_append (capacity m)) (memory m) ts"
  unfolding pushes_def
proof (induction ts arbitrary: m)
  case Nil
  show ?case by simp
next
  case (Cons t ts)
  show ?case by (simp add: Cons.IH) (simp add: push_def)
qed

lemma pushes_init:
  "memory (pushes (ReplayMemory_init C) ts) = drop (length ts - C) ts"
  by (simp add: pushes_memory foldl_deque_append ReplayMemory_init_def)

section \<open>Replay memory: capacity bound and FIFO eviction\<close>

text \<open>
  C2. For every sequence of pushes into a replay memory of capacity \<open>C\<close>: after the
  pushes the length is at most \<open>C\<close>; once more than \<open>C\<close> transitions have been pushed
  the length is exactly \<open>C\<close>; and the contents are the most recently pushed
  transitions (the last \<open>C\<close> of them when more than \<open>C\<close> were pushed), in insertion
  order. Since the sequence is arbitrary this holds after every single push.
\<close>

theorem replay_memory_fifo:
  "len (pushes (ReplayMemory_init C) ts) \<le> C \<and>
   (C < length ts \<longrightarrow>
      len (pushes (ReplayMemory_init C) ts) = C \<and>
      memory (pushes (ReplayMemory_init C) ts) = drop (length ts - C) ts \<and>
      (\<forall>i < C. memory (pushes (ReplayMemory_init C) ts) ! i = ts ! (length ts - C + i)))"
  by (simp add: len_def pushes_init)

theorem replay_memory_fifo_witness:
  "(2::nat) < length [10, 20, 30 :: nat] \<and>
   len (pushes (ReplayMemory_init 2) [10, 20, 30 :: nat]) = 2 \<and>
   memory (pushes (ReplayMemory_init 2) [10, 20, 30 :: nat]) = [20, 30]"
  using replay_memory_fifo [of 2 "[10, 20, 30 :: nat]"] by simp

text \<open>
  C9. The claim says that a memory of capacity 5 holds transitions #3 to #7, counted
  from 0, after seven pushes. Pushing the transitions labelled 0 to 6 (their 0-based
  push numbers) leaves 2 to 6: transition #2 is retained and there is no #7.
\<close>

theorem capacity5_push7_counterexample:
  "memory (pushes (ReplayMemory_init 5) [0, 1, 2, 3, 4, 5, 6 :: nat]) = [2, 3, 4, 5, 6] \<and>
   memory (pushes (ReplayMemory_init 5) [0, 1, 2, 3, 4, 5, 6 :: nat]) \<noteq> [3, 4, 5, 6, 7]"
  by (simp add: pushes_init)

lemma list7:
  assumes "length ts = 7"
  obtains a b c d e f g where "ts = [a, b, c, d, e, f, g]"
proof -
  from assms have "\<exists>a b c d e f g. ts = [a, b, c, d, e, f, g]"
    by (simp add: numeral_eq_Suc length_Suc_conv) blast
  then show thesis using that by blast
qed

text \<open>
  C9, amended. For a replay memory of capacity 5, after pushing seven distinct
  transitions its length is 5 and its contents are exactly transitions #2 to #6,
  0-indexed from the first push (the third to the seventh pushed), in push order;
  the first two pushed are gone.
\<close>

theorem capacity5_push7:
  assumes "length ts = 7" and "distinct ts"
  shows "len (pushes (ReplayMemory_init 5) ts) = 5 \<and>
         memory (pushes (ReplayMemory_init 5) ts) = [ts ! 2, ts ! 3, ts ! 4, ts ! 5, ts ! 6] \<and>
         ts ! 0 \<notin> set (memory (pushes (ReplayMemory_init 5) ts)) \<and>
         ts ! 1 \<notin> set (memory (pushes (ReplayMemory_init 5) ts))"
proof -
  from assms(1) obtain a b c d e f g where ts: "ts = [a, b, c, d, e, f, g]" by (rule list7)
  have "memory (pushes (ReplayMemory_init 5) ts) = drop 2 ts"
    using assms(1) by (simp add: pushes_init)
  with ts assms(2) show ?thesis by (auto simp: len_def)
qed

theorem capacity5_push7_witness:
  "length [0, 1, 2, 3, 4, 5, 6 :: nat] = 7 \<and> distinct [0, 1, 2, 3, 4, 5, 6 :: nat] \<and>
   len (pushes (ReplayMemory_init 5) [0, 1, 2, 3, 4, 5, 6 :: nat]) = 5 \<and>
   memory (pushes (ReplayMemory_init 5) [0, 1, 2, 3, 4, 5, 6 :: nat]) = [2, 3, 4, 5, 6]"
  using capacity5_push7 [of "[0, 1, 2, 3, 4, 5, 6 :: nat]"] by simp

section \<open>Frame stack\<close>

text \<open>
  C7. After a reset and any sequence of frame pushes, reading the frame stack fails
  (the assertion of \<^verbatim>\<open>get_recent_states\<close>) when fewer than \<open>K\<close> frames have been
  pushed, and otherwise returns the \<open>K\<close> most recent frames in push order.
\<close>

theorem frame_stack_snapshot:
  "get_recent_states K (stack_frames K fs) =
     (if length fs < K then Inl AssertionError else Inr (drop (length fs - K) fs))"
  by (simp add: get_recent_states_def stack_frames_def foldl_deque_append)

section \<open>Selection without replacement\<close>



lemma pool_step_length: "length (butlast (pool[j := last pool])) = length pool - 1"
  by simp


lemma draws_in_range_length: "draws_in_range m ds \<Longrightarrow> length ds \<le> m"
  by (induction m ds rule: draws_in_range.induct) auto







section \<open>Sampling\<close>









section \<open>Exploration schedule\<close>

lemma decay_antimono: "0 < F \<Longrightarrow> t \<le> u \<Longrightarrow> decay u F \<le> decay t F"
proof -
  assume F: "0 < F" and tu: "t \<le> u"
  then have "real t / real_of_int F \<le> real u / real_of_int F"
    by (simp add: divide_right_mono)
  then show ?thesis unfolding decay_def by (intro max.mono) simp_all
qed

lemma decay_floor: "0 < F \<Longrightarrow> nat F \<le> t \<Longrightarrow> decay t F = 0.01"
proof -
  assume F: "0 < F" and t: "nat F \<le> t"
  then have "real_of_int F \<le> real t" by linarith
  with F have "1 \<le> real t / real_of_int F" by simp
  then show ?thesis unfolding decay_def by simp
qed

text \<open>
  C4. For a positive \<open>final_exp_frame\<close>, \<^verbatim>\<open>set_eps\<close> stores
  \<open>max(0.01, 0.01 + 0.99 * (1 - total_steps / final_exp_frame))\<close>; the schedule is
  1 at step 0, 0.01 at step \<open>final_exp_frame\<close>, non-increasing in the step count,
  and 0.01 at every step from \<open>final_exp_frame\<close> on.
\<close>

theorem decay_schedule:
  assumes "0 < final_exp_frame c"
  shows "set_eps c s =
           Inr (s\<lparr>eps := max 0.01 (0.01 + 0.99 *
                    (1 - real (total_steps s) / real_of_int (final_exp_frame c)))\<rparr>) \<and>
         (\<forall>t. decaySchedule t (final_exp_frame c) = Inr (decay t (final_exp_frame c))) \<and>
         decaySchedule 0 (final_exp_frame c) = Inr 1 \<and>
         decaySchedule (nat (final_exp_frame c)) (final_exp_frame c) = Inr 0.01 \<and>
         (\<forall>t u. t \<le> u \<longrightarrow> decay u (final_exp_frame c) \<le> decay t (final_exp_frame c)) \<and>
         (\<forall>t. nat (final_exp_frame c) \<le> t \<longrightarrow> decaySchedule t (final_exp_frame c) = Inr 0.01)"
proof -
  let ?F = "final_exp_frame c"
  have ne: "?F \<noteq> 0" using assms by simp
  have 1: "set_eps c s =
      Inr (s\<lparr>eps := max 0.01 (0.01 + 0.99 * (1 - real (total_steps s) / real_of_int ?F))\<rparr>)"
    using ne by (simp add: set_eps_def decaySchedule_def decay_def)
  have 2: "decaySchedule 0 ?F = Inr 1" using ne by (simp add: decaySchedule_def decay_def)
  have 3: "decaySchedule (nat ?F) ?F = Inr 0.01"
    using ne assms by (simp add: decaySchedule_def decay_floor)
  have 4: "\<forall>t u. t \<le> u \<longrightarrow> decay u ?F \<le> decay t ?F"
    using assms by (simp add: decay_antimono)
  have 5: "\<forall>t. nat ?F \<le> t \<longrightarrow> decaySchedule t ?F = Inr 0.01"
    using ne assms by (simp add: decaySchedule_def decay_floor)
  have 6: "\<forall>t. decaySchedule t ?F = Inr (decay t ?F)" using ne by (simp add: decaySchedule_def)
  from 1 2 3 4 5 6 show ?thesis by blast
qed

theorem decay_schedule_witness:
  "0 < final_exp_frame default_config \<and>
   decaySchedule 0 100000 = Inr 1 \<and>
   decaySchedule 50000 100000 = Inr 0.505 \<and>
   decaySchedule 100000 100000 = Inr 0.01 \<and>
   decay 50000 100000 \<le> decay 0 100000 \<and>
   decaySchedule 200000 100000 = Inr 0.01"
proof -
  have h: "0 < final_exp_frame default_config" by (simp add: default_config_def)
  have F: "final_exp_frame default_config = 100000" by (simp add: default_config_def)
  note T = decay_schedule [OF h, of "Trainer_init default_config (0::nat) (0::nat) (0::nat) (0::nat)
      :: (nat, nat, nat, nat, nat) trainer", unfolded F]
  from T have sched: "decaySchedule 50000 100000 = Inr (decay 50000 100000)" by blast
  from T have zero: "decaySchedule 0 100000 = Inr 1" by blast
  from T have final: "decaySchedule (nat 100000) 100000 = Inr 0.01" by blast
  from T have mono: "(0::nat) \<le> 50000 \<longrightarrow> decay 50000 100000 \<le> decay 0 100000" by blast
  from T have later: "nat 100000 \<le> 200000 \<longrightarrow> decaySchedule 200000 100000 = Inr 0.01"
    by blast
  have mid: "decay 50000 100000 = 0.505" by (simp add: decay_def)
  from h sched zero final mono later mid show ?thesis by simp
qed

section \<open>One loop iteration\<close>

lemma set_deque_append: "set (deque_append n dq x) \<subseteq> insert x (set dq)"
proof -
  have "set (tl (dq @ [x])) \<subseteq> set (dq @ [x])" by (rule list.set_sel(2) [THEN subsetI]) simp
  then show ?thesis by (auto simp: deque_append_def Let_def)
qed

lemma env_step_frame:
  assumes "env_step c w steps s = Inr (r, s1)"
  shows "eps s1 = eps s" "q_network s1 = q_network s" "q_target s1 = q_target s"
    "optimizer s1 = optimizer s" "tb_writer s1 = tb_writer s"
    "saved_models s1 = saved_models s" "reward_per_ep s1 = reward_per_ep s"
    "total_steps s1 = Suc (total_steps s)"
    "capacity (trainer_memory s1) = capacity (trainer_memory s)"
  using assms unfolding env_step_def
  by (auto simp: Let_def push_def split: if_splits sum.splits prod.splits option.splits)

lemma env_step_record:
  assumes "env_step c w steps s = Inr (r, s1)" and "frame_stack c < steps"
  shows "\<exists>t. recorded_ok (frame_stack c) t \<and>
           memory (trainer_memory s1) =
             deque_append (capacity (trainer_memory s)) (memory (trainer_memory s)) t"
proof -
  from assms obtain psi a x1 x2 psi' where
    "get_recent_states (frame_stack c) (frame_stacker s) = Inr psi"
    "get_recent_states (frame_stack c)
       (deque_append (frame_stack c) (frame_stacker s) (get_screen w x2)) = Inr psi'"
    "memory (trainer_memory s1) =
       deque_append (capacity (trainer_memory s)) (memory (trainer_memory s))
         \<lparr>state = psi, action = Some a, next_state = psi', reward = clip x1,
          done_flag = game_over w x2\<rparr>"
    unfolding env_step_def
    by (auto simp: Let_def push_def split: if_splits sum.splits prod.splits option.splits)
  then show ?thesis
    by (intro exI [of _ "\<lparr>state = psi, action = Some a, next_state = psi', reward = clip x1,
          done_flag = game_over w x2\<rparr>"])
       (auto simp: recorded_ok_def get_recent_states_def split: if_splits)
qed

lemma env_step_no_record:
  assumes "env_step c w steps s = Inr (r, s1)" and "\<not> frame_stack c < steps"
  shows "trainer_memory s1 = trainer_memory s"
  using assms unfolding env_step_def
  by (auto simp: Let_def split: if_splits sum.splits prod.splits option.splits)

lemma env_step_len:
  assumes "env_step c w steps s = Inr (r, s1)"
  shows "len (trainer_memory s) \<le> len (trainer_memory s1)"
proof (cases "frame_stack c < steps")
  case True
  from env_step_record [OF assms True] show ?thesis
    by (auto simp: len_def deque_append_mono)
next
  case False
  from env_step_no_record [OF assms False] show ?thesis by simp
qed

lemma env_step_stub_env:
  assumes "env_step c (stub_env n w) steps s = Inr (r, s1)"
  shows "env s1 = Suc (env s)"
  using assms unfolding env_step_def stub_env_def
  by (auto simp: Let_def split: if_splits sum.splits prod.splits option.splits)

lemma learn_frame:
  assumes "learn c w s1 = Inr s2"
  shows "trainer_memory s2 = trainer_memory s1" "env s2 = env s1"
    "frame_stacker s2 = frame_stacker s1" "total_steps s2 = total_steps s1"
  using assms unfolding learn_def set_eps_def sample_def update_target_def save_model_def
  by (auto simp: Let_def split: if_splits sum.splits prod.splits)

lemma learn_effect:
  assumes "learn c w s1 = Inr s2"
  shows "eps s2 = decay (total_steps s1) (final_exp_frame c)"
    "length (tb_writer s2) = Suc (length (tb_writer s1))"
    "q_target s2 = (if int (total_steps s1) mod reset_target c = 0 then q_network s2
                    else q_target s1)"
  using assms unfolding learn_def set_eps_def decaySchedule_def update_target_def save_model_def
  by (auto simp: Let_def split: if_splits sum.splits prod.splits)

lemma learn_optimizer:
  assumes "learn c w s1 = Inr s2"
  shows "\<exists>batch. sample (trainer_memory s1) (batch_size c)
           (rng_sample w (total_steps s1) (len (trainer_memory s1)) (batch_size c))
             = (Inr batch, trainer_memory s1) \<and>
           (q_network s2, optimizer s2) =
             optimizer_step w (optimizer s1) (q_network s1) (q_target s1) batch"
proof -
  from assms obtain s' where s': "set_eps c s1 = Inr s'"
    unfolding learn_def by (auto split: sum.splits)
  then have same: "trainer_memory s' = trainer_memory s1" "total_steps s' = total_steps s1"
    "q_network s' = q_network s1" "q_target s' = q_target s1" "optimizer s' = optimizer s1"
    unfolding set_eps_def by (auto split: sum.splits)
  from assms s' obtain batch m where
    b: "sample (trainer_memory s') (batch_size c)
          (rng_sample w (total_steps s') (len (trainer_memory s')) (batch_size c))
        = (Inr batch, m)"
    unfolding learn_def by (auto split: sum.splits prod.splits)
  then have m: "m = trainer_memory s'" unfolding sample_def by (auto split: sum.splits)
  from assms s' b have "(q_network s2, optimizer s2) =
      optimizer_step w (optimizer s') (q_network s') (q_target s') batch"
    unfolding learn_def update_target_def save_model_def
    by (auto simp: Let_def split: if_splits sum.splits prod.splits)
  with b m same show ?thesis by auto
qed

lemma loop_body_cases:
  assumes "loop_body c w steps s = Inr (r, s')"
  obtains s1 where "env_step c w steps s = Inr (r, s1)"
    and "int (len (trainer_memory s1)) \<le> num_samples_pre c" and "s' = s1"
  | s1 where "env_step c w steps s = Inr (r, s1)"
    and "num_samples_pre c < int (len (trainer_memory s1))" and "learn c w s1 = Inr s'"
  using assms unfolding loop_body_def
  by (auto split: sum.splits prod.splits if_splits)

lemma loop_body_memory:
  assumes "loop_body c w steps s = Inr (r, s')"
  obtains s1 where "env_step c w steps s = Inr (r, s1)"
    and "trainer_memory s' = trainer_memory s1"
  using assms by (elim loop_body_cases) (auto simp: learn_frame)

lemma loop_body_len:
  assumes "loop_body c w steps s = Inr (r, s')"
  shows "len (trainer_memory s) \<le> len (trainer_memory s')"
  using assms by (elim loop_body_memory) (auto dest: env_step_len)

lemma loop_body_recorded:
  assumes "loop_body c w steps s = Inr (r, s')"
    and "list_all (recorded_ok (frame_stack c)) (memory (trainer_memory s))"
  shows "list_all (recorded_ok (frame_stack c)) (memory (trainer_memory s'))"
proof -
  from assms(1) obtain s1 where e: "env_step c w steps s = Inr (r, s1)"
    and m: "trainer_memory s' = trainer_memory s1" by (rule loop_body_memory)
  show ?thesis
  proof (cases "frame_stack c < steps")
    case True
    from env_step_record [OF e True] obtain t where t: "recorded_ok (frame_stack c) t"
      and mem: "memory (trainer_memory s1) =
        deque_append (capacity (trainer_memory s)) (memory (trainer_memory s)) t" by blast
    have "set (memory (trainer_memory s1)) \<subseteq> insert t (set (memory (trainer_memory s)))"
      unfolding mem by (rule set_deque_append)
    with t assms(2) show ?thesis unfolding m by (auto simp: list_all_iff)
  next
    case False
    from env_step_no_record [OF e False] assms(2) m show ?thesis by simp
  qed
qed

lemma loop_body_skip:
  assumes "loop_body c w steps s = Inr (r, s')"
    and "int (len (trainer_memory s')) \<le> num_samples_pre c"
  shows "env_step c w steps s = Inr (r, s')"
  using assms by (elim loop_body_cases) (auto simp: learn_frame)

section \<open>The episode loop\<close>

declare episode_loop.simps [simp del]

text \<open>An invariant of the loop body that holds at the start holds when the loop ends.\<close>

lemma episode_loop_invariant:
  assumes "episode_loop c w steps rewards s = Inr (rs, s')"
    and "P steps s"
    and "\<And>k t r t'. P k t \<Longrightarrow> \<not> game_over w (env t) \<Longrightarrow> int k < max_ep_steps c \<Longrightarrow>
           loop_body c w k t = Inr (r, t') \<Longrightarrow> P (Suc k) t'"
  shows "\<exists>k. P k s' \<and> (game_over w (env s') \<or> max_ep_steps c \<le> int k)"
  using assms
proof (induction c w steps rewards s rule: episode_loop.induct)
  case (1 c w steps rewards s)
  note step = "1.prems"(3)
  show ?case
  proof (cases "\<not> game_over w (env s) \<and> int steps < max_ep_steps c")
    case True
    with "1.prems"(1) obtain r t' where
      body: "loop_body c w steps s = Inr (r, t')"
      and rest: "episode_loop c w (Suc steps) (rewards @ [r]) t' = Inr (rs, s')"
      by (subst (asm) episode_loop.simps) (auto split: sum.splits prod.splits)
    from True have go: "\<not> game_over w (env s)" "int steps < max_ep_steps c" by simp_all
    have "P (Suc steps) t'" using "1.prems"(2) go body by (rule step)
    with "1.IH" [OF True body refl rest] step show ?thesis by blast
  next
    case False
    with "1.prems"(1) have "s' = s"
      by (subst (asm) episode_loop.simps) auto
    with False "1.prems"(2) show ?thesis by (intro exI [of _ steps]) auto
  qed
qed

text \<open>
  If the loop body succeeds and re-establishes the invariant whenever the loop
  condition holds, the loop returns normally.
\<close>

lemma episode_loop_returns:
  assumes "P steps s"
    and "\<And>k t. P k t \<Longrightarrow> \<not> game_over w (env t) \<Longrightarrow> int k < max_ep_steps c \<Longrightarrow>
           \<exists>r t'. loop_body c w k t = Inr (r, t') \<and> P (Suc k) t'"
  shows "\<exists>rs s'. episode_loop c w steps rewards s = Inr (rs, s')"
  using assms
proof (induction c w steps rewards s rule: episode_loop.induct)
  case (1 c w steps rewards s)
  note step = "1.prems"(2)
  show ?case
  proof (cases "\<not> game_over w (env s) \<and> int steps < max_ep_steps c")
    case True
    then have go: "\<not> game_over w (env s)" "int steps < max_ep_steps c" by simp_all
    from step [OF "1.prems"(1) go] obtain r t' where
      body: "loop_body c w steps s = Inr (r, t')" and P: "P (Suc steps) t'" by blast
    from "1.IH" [OF True body refl P] step
    obtain rs s' where "episode_loop c w (Suc steps) (rewards @ [r]) t' = Inr (rs, s')"
      by blast
    with True body show ?thesis by (subst episode_loop.simps) simp
  next
    case False
    then show ?thesis by (subst episode_loop.simps) auto
  qed
qed

lemma episode_cases:
  assumes "episode c w s = Inr s'"
  obtains rs t where
    "episode_loop c w 0 []
       (s\<lparr>env := reset_game w (env s),
          frame_stacker :=
            deque_append (frame_stack c) [] (get_screen w (reset_game w (env s)))\<rparr>)
     = Inr (rs, t)"
    and "s' = t\<lparr>reward_per_ep := reward_per_ep t @ [sum_list rs]\<rparr>"
  using assms unfolding episode_def
  by (auto simp: Let_def split: sum.splits prod.splits)

lemma episode_recorded:
  assumes "episode c w s = Inr s'"
    and "list_all (recorded_ok (frame_stack c)) (memory (trainer_memory s))"
  shows "list_all (recorded_ok (frame_stack c)) (memory (trainer_memory s'))"
proof -
  let ?P = "\<lambda>(k::nat) t. list_all (recorded_ok (frame_stack c)) (memory (trainer_memory t))"
  from assms(1) obtain rs t where
    loop: "episode_loop c w 0 []
       (s\<lparr>env := reset_game w (env s),
          frame_stacker :=
            deque_append (frame_stack c) [] (get_screen w (reset_game w (env s)))\<rparr>)
     = Inr (rs, t)"
    and s': "s' = t\<lparr>reward_per_ep := reward_per_ep t @ [sum_list rs]\<rparr>"
    by (rule episode_cases)
  have "\<exists>k. ?P k t \<and> (game_over w (env t) \<or> max_ep_steps c \<le> int k)"
    using loop
  proof (rule episode_loop_invariant)
    show "?P 0 (s\<lparr>env := reset_game w (env s),
          frame_stacker :=
            deque_append (frame_stack c) [] (get_screen w (reset_game w (env s)))\<rparr>)"
      using assms(2) by simp
  next
    fix k u r u'
    assume "?P k u" and "loop_body c w k u = Inr (r, u')"
    then show "?P (Suc k) u'" by (simp add: loop_body_recorded)
  qed
  with s' show ?thesis by simp
qed

lemma episode_loop_len:
  assumes "episode_loop c w steps rewards s = Inr (rs, s')"
  shows "len (trainer_memory s) \<le> len (trainer_memory s')"
proof -
  let ?P = "\<lambda>(k::nat) t. len (trainer_memory s) \<le> len (trainer_memory t)"
  have "\<exists>k. ?P k s' \<and> (game_over w (env s') \<or> max_ep_steps c \<le> int k)"
    using assms
  proof (rule episode_loop_invariant)
    show "?P steps s" by simp
  next
    fix k u r u'
    assume "?P k u" and "loop_body c w k u = Inr (r, u')"
    then show "?P (Suc k) u'" using loop_body_len [of c w k u r u'] by simp
  qed
  then show ?thesis by simp
qed

lemma episode_loop_prefill_eps:
  assumes "episode_loop c w steps rewards s = Inr (rs, s')"
    and "int (len (trainer_memory s')) \<le> num_samples_pre c"
  shows "eps s' = eps s"
  using assms
proof (induction c w steps rewards s rule: episode_loop.induct)
  case (1 c w steps rewards s)
  show ?case
  proof (cases "\<not> game_over w (env s) \<and> int steps < max_ep_steps c")
    case True
    with "1.prems"(1) obtain r t' where
      body: "loop_body c w steps s = Inr (r, t')"
      and rest: "episode_loop c w (Suc steps) (rewards @ [r]) t' = Inr (rs, s')"
      by (subst (asm) episode_loop.simps) (auto split: sum.splits prod.splits)
    from "1.IH" [OF True body refl rest "1.prems"(2)] have a: "eps s' = eps t'" .
    from episode_loop_len [OF rest] "1.prems"(2)
    have "int (len (trainer_memory t')) \<le> num_samples_pre c" by simp
    with body have "env_step c w steps s = Inr (r, t')" by (rule loop_body_skip)
    then have "eps t' = eps s" by (rule env_step_frame)
    with a show ?thesis by simp
  next
    case False
    with "1.prems"(1) have "s' = s"
      by (subst (asm) episode_loop.simps) auto
    then show ?thesis by simp
  qed
qed

lemma episode_len:
  assumes "episode c w s = Inr s'"
  shows "len (trainer_memory s) \<le> len (trainer_memory s')"
  using assms by (elim episode_cases) (auto dest: episode_loop_len simp: len_def)

lemma episode_prefill_eps:
  assumes "episode c w s = Inr s'"
    and "int (len (trainer_memory s')) \<le> num_samples_pre c"
  shows "eps s' = eps s"
  using assms by (elim episode_cases) (auto dest: episode_loop_prefill_eps simp: len_def)

lemma run_experiment_len:
  "run_experiment c w n s = Inr s' \<Longrightarrow> len (trainer_memory s) \<le> len (trainer_memory s')"
proof (induction n arbitrary: s)
  case 0
  then show ?case by simp
next
  case (Suc n)
  then obtain t where t: "episode c w s = Inr t" and r: "run_experiment c w n t = Inr s'"
    by (auto split: sum.splits)
  from episode_len [OF t] Suc.IH [OF r] show ?case by simp
qed

lemma run_experiment_prefill_eps:
  "run_experiment c w n s = Inr s' \<Longrightarrow> int (len (trainer_memory s')) \<le> num_samples_pre c \<Longrightarrow>
   eps s' = eps s"
proof (induction n arbitrary: s)
  case 0
  then show ?case by simp
next
  case (Suc n)
  then obtain t where t: "episode c w s = Inr t" and r: "run_experiment c w n t = Inr s'"
    by (auto split: sum.splits)
  from run_experiment_len [OF r] Suc.prems(2)
  have "int (len (trainer_memory t)) \<le> num_samples_pre c" by simp
  with t have "eps t = eps s" by (rule episode_prefill_eps)
  with Suc.IH [OF r Suc.prems(2)] show ?case by simp
qed

section \<open>Episodes on the stub environment\<close>

lemma loop_body_env:
  assumes "loop_body c w steps s = Inr (r, s')"
  obtains s1 where "env_step c w steps s = Inr (r, s1)"
    and "trainer_memory s' = trainer_memory s1" and "env s' = env s1"
    and "frame_stacker s' = frame_stacker s1"
  using assms by (elim loop_body_cases) (auto simp: learn_frame)

lemma stub_loop_count:
  assumes loop: "episode_loop c (stub_env n w) 0 rewards s = Inr (rs, s')"
    and env: "env s = 0"
    and n: "int n \<le> max_ep_steps c"
    and cap: "len (trainer_memory s) + (n - Suc (frame_stack c)) \<le> capacity (trainer_memory s)"
  shows "len (trainer_memory s') = len (trainer_memory s) + (n - Suc (frame_stack c))"
proof -
  let ?K = "frame_stack c"
  let ?P = "\<lambda>k t. env t = k \<and> k \<le> n \<and>
              capacity (trainer_memory t) = capacity (trainer_memory s) \<and>
              len (trainer_memory t) = len (trainer_memory s) + (k - Suc ?K)"
  have "\<exists>k. ?P k s' \<and> (game_over (stub_env n w) (env s') \<or> max_ep_steps c \<le> int k)"
    using loop
  proof (rule episode_loop_invariant)
    show "?P 0 s" using env by simp
  next
    fix k t r t'
    assume P: "?P k t" and go: "\<not> game_over (stub_env n w) (env t)"
      and body: "loop_body c (stub_env n w) k t = Inr (r, t')"
    from go P have k: "k < n" by (simp add: stub_env_def)
    from body obtain s1 where e: "env_step c (stub_env n w) k t = Inr (r, s1)"
      and m: "trainer_memory t' = trainer_memory s1" and ev: "env t' = env s1"
      by (rule loop_body_env)
    from env_step_stub_env [OF e] P ev have 1: "env t' = Suc k" by simp
    from env_step_frame(9) [OF e] P m
    have 2: "capacity (trainer_memory t') = capacity (trainer_memory s)" by simp
    have 3: "len (trainer_memory t') = len (trainer_memory s) + (Suc k - Suc ?K)"
    proof (cases "?K < k")
      case True
      from env_step_record [OF e True] obtain x where
        "memory (trainer_memory s1) =
           deque_append (capacity (trainer_memory t)) (memory (trainer_memory t)) x" by blast
      then have "len (trainer_memory s1) =
          (if capacity (trainer_memory t) < Suc (len (trainer_memory t))
           then len (trainer_memory t) else Suc (len (trainer_memory t)))"
        by (simp add: len_def deque_append_length)
      moreover from P k True cap have "Suc (len (trainer_memory t)) \<le> capacity (trainer_memory t)"
        by simp
      ultimately show ?thesis using P True m by simp
    next
      case False
      from env_step_no_record [OF e False] P m False show ?thesis by simp
    qed
    from 1 2 3 k show "?P (Suc k) t'" by simp
  qed
  then obtain k where P: "?P k s'" and stop: "n \<le> env s' \<or> max_ep_steps c \<le> int k"
    by (auto simp: stub_env_def)
  from P stop n have "k = n" by auto
  with P show ?thesis by simp
qed

lemma stub_episode_count:
  assumes "episode c (stub_env n w) s = Inr s'"
    and "int n \<le> max_ep_steps c"
    and "len (trainer_memory s) + (n - Suc (frame_stack c)) \<le> capacity (trainer_memory s)"
  shows "len (trainer_memory s') = len (trainer_memory s) + (n - Suc (frame_stack c))"
proof -
  let ?s0 = "s\<lparr>env := reset_game (stub_env n w) (env s),
          frame_stacker := deque_append (frame_stack c) []
            (get_screen (stub_env n w) (reset_game (stub_env n w) (env s)))\<rparr>"
  from assms(1) obtain rs t where
    loop: "episode_loop c (stub_env n w) 0 [] ?s0 = Inr (rs, t)"
    and s': "s' = t\<lparr>reward_per_ep := reward_per_ep t @ [sum_list rs]\<rparr>"
    by (rule episode_cases)
  have "len (trainer_memory t) = len (trainer_memory ?s0) + (n - Suc (frame_stack c))"
    using loop
  proof (rule stub_loop_count)
    show "env ?s0 = 0" by (simp add: stub_env_def)
    show "int n \<le> max_ep_steps c" by (rule assms(2))
    show "len (trainer_memory ?s0) + (n - Suc (frame_stack c)) \<le> capacity (trainer_memory ?s0)"
      using assms(3) by simp
  qed
  with s' show ?thesis by simp
qed

text \<open>
  With a frame stacker filled as the episode fills it, the environment step does
  not fail: the assertion of \<^verbatim>\<open>get_recent_states\<close> and the read of
  \<^verbatim>\<open>psi_state\<close> succeed.
\<close>

lemma env_step_returns:
  assumes "length (frame_stacker s) = min (Suc k) (frame_stack c)"
  shows "\<exists>r s1. env_step c w k s = Inr (r, s1) \<and>
           length (frame_stacker s1) = min (Suc (Suc k)) (frame_stack c)"
proof (cases "k < frame_stack c")
  case True
  with assms show ?thesis unfolding env_step_def
    by (auto simp: Let_def deque_append_length split: prod.splits)
next
  case False
  with assms show ?thesis unfolding env_step_def
    by (auto simp: Let_def deque_append_length get_recent_states_def split: prod.splits)
qed

lemma stub_episode_returns:
  fixes s :: "(nat, 'f, 'a, 'p, 'o) trainer"
  assumes n: "int n \<le> max_ep_steps c"
    and cap: "len (trainer_memory s) + (n - Suc (frame_stack c)) \<le> capacity (trainer_memory s)"
    and pre: "int (len (trainer_memory s) + (n - Suc (frame_stack c))) \<le> num_samples_pre c"
  shows "\<exists>s'. episode c (stub_env n w) s = Inr s'"
proof -
  let ?K = "frame_stack c"
  let ?w = "stub_env n w"
  let ?s0 = "s\<lparr>env := reset_game ?w (env s),
          frame_stacker := deque_append ?K [] (get_screen ?w (reset_game ?w (env s)))\<rparr>"
  let ?P = "\<lambda>k t. env t = k \<and> k \<le> n \<and> length (frame_stacker t) = min (Suc k) ?K \<and>
              capacity (trainer_memory t) = capacity (trainer_memory s) \<and>
              len (trainer_memory t) = len (trainer_memory s) + (k - Suc ?K)"
  have "\<exists>rs s'. episode_loop c ?w 0 [] ?s0 = Inr (rs, s')"
  proof (rule episode_loop_returns [where P = ?P])
    show "?P 0 ?s0" by (simp add: stub_env_def deque_append_length)
  next
    fix k and t :: "(nat, 'f, 'a, 'p, 'o) trainer"
    assume P: "?P k t" and go: "\<not> game_over ?w (env t)"
    from go P have k: "k < n" by (simp add: stub_env_def)
    from P have "length (frame_stacker t) = min (Suc k) ?K" by simp
    with env_step_returns [where s = t and k = k and c = c and w = ?w] obtain r s1 where
      e: "env_step c ?w k t = Inr (r, s1)"
      and fs: "length (frame_stacker s1) = min (Suc (Suc k)) ?K" by blast
    from env_step_stub_env [OF e] P have 1: "env s1 = Suc k" by simp
    from env_step_frame(9) [OF e] P
    have 2: "capacity (trainer_memory s1) = capacity (trainer_memory s)" by simp
    have 3: "len (trainer_memory s1) = len (trainer_memory s) + (Suc k - Suc ?K)"
    proof (cases "?K < k")
      case True
      from env_step_record [OF e True] obtain x where
        "memory (trainer_memory s1) =
           deque_append (capacity (trainer_memory t)) (memory (trainer_memory t)) x" by blast
      then have "len (trainer_memory s1) =
          (if capacity (trainer_memory t) < Suc (len (trainer_memory t))
           then len (trainer_memory t) else Suc (len (trainer_memory t)))"
        by (simp add: len_def deque_append_length)
      moreover from P k True cap have "Suc (len (trainer_memory t)) \<le> capacity (trainer_memory t)"
        by simp
      ultimately show ?thesis using P True by simp
    next
      case False
      from env_step_no_record [OF e False] P False show ?thesis by simp
    qed
    from 3 k pre have "int (len (trainer_memory s1)) \<le> num_samples_pre c" by simp
    with e have "loop_body c ?w k t = Inr (r, s1)" by (simp add: loop_body_def)
    with 1 2 3 fs k show "\<exists>r t'. loop_body c ?w k t = Inr (r, t') \<and> ?P (Suc k) t'" by auto
  qed
  then show ?thesis unfolding episode_def by (auto simp: Let_def)
qed

section \<open>Concrete runs\<close>

lemmas run_defs =
  default_config_def counting_world_def stub_env_def Trainer_init_def ReplayMemory_init_def
  loop_body_def env_step_def learn_def get_recent_states_def deque_append_def push_def len_def
  clip_def set_eps_def decaySchedule_def decay_def sample_def random_sample_def randbelow_def
  transpose_batch_def update_target_def save_model_def mean_def Let_def

lemma stub_episode_eval:
  "episode default_config (stub_env 10 counting_world) fresh_trainer = Inr stub_episode_result"
  by (simp add: episode_def fresh_trainer_def stub_episode_result_def episode_loop.simps run_defs)

lemma warmup_step_eval:
  "env_step default_config (stub_env 10 counting_world) 2 fresh_trainer =
     Inr (0, fresh_trainer\<lparr>env := 1, frame_stacker := [1], total_steps := 1\<rparr>)"
  by (simp add: fresh_trainer_def run_defs)

lemma failing_env_step_eval:
  "env_step failing_config counting_world 5 boundary_state = Inr (1, boundary_after)"
  by (simp add: failing_config_def boundary_state_def boundary_after_def run_defs)

lemma boundary_step_eval:
  "loop_body boundary_config counting_world 5 boundary_state = Inr (1, boundary_after)"
  by (simp add: boundary_config_def boundary_state_def boundary_after_def run_defs)

lemma learning_step_eval:
  "loop_body learning_config counting_world 5 boundary_state = Inr (1, learned_after)"
  by (simp add: learning_config_def boundary_state_def boundary_after_def learned_after_def
      run_defs)

lemma failing_step_eval:
  "loop_body failing_config counting_world 5 boundary_state = Inl ValueError"
  by (simp add: failing_config_def boundary_state_def run_defs)

lemma boundary_learn_eval:
  "learn boundary_config counting_world boundary_after =
     Inr (learned_after\<lparr>q_target := 1\<rparr>)"
  by (simp add: boundary_config_def boundary_after_def learned_after_def run_defs)

section \<open>Warm-up actions are not recorded\<close>

text \<open>
  C5. In every training episode that returns, if all transitions in the replay
  memory were chosen by the policy with full frame stacks on both sides, so are all
  transitions afterwards: the \<^verbatim>\<open>None\<close> actions of the warm-up never enter the
  memory, and nothing is recorded at a loop step \<open>steps \<le> frame_stack\<close>. On an
  environment that terminates after 10 steps, with \<open>frame_stack = 4\<close> and room in
  the memory, an episode that returns has recorded exactly \<open>10 - 4 - 1 = 5\<close>
  transitions; and it does return when those five stay within the pre-fill
  threshold \<open>num_samples_pre\<close>.
\<close>

theorem warmup_actions_not_recorded:
  fixes s s' s1 :: "('e, 'f, 'a, 'p, 'o) trainer" and t t' :: "(nat, 'g, 'b, 'q, 'r) trainer"
  shows
  "(episode c w s = Inr s' \<and>
      list_all (recorded_ok (frame_stack c)) (memory (trainer_memory s)) \<longrightarrow>
      list_all (recorded_ok (frame_stack c)) (memory (trainer_memory s'))) \<and>
   (env_step c w steps s = Inr (r, s1) \<and> steps \<le> frame_stack c \<longrightarrow>
      trainer_memory s1 = trainer_memory s) \<and>
   (frame_stack c = 4 \<and> 10 \<le> max_ep_steps c \<and>
      len (trainer_memory t) + 5 \<le> capacity (trainer_memory t) \<and>
      episode c (stub_env 10 v) t = Inr t' \<longrightarrow>
      len (trainer_memory t') = len (trainer_memory t) + 5) \<and>
   (frame_stack c = 4 \<and> 10 \<le> max_ep_steps c \<and>
      len (trainer_memory t) + 5 \<le> capacity (trainer_memory t) \<and>
      int (len (trainer_memory t) + 5) \<le> num_samples_pre c \<longrightarrow>
      (\<exists>u. episode c (stub_env 10 v) t = Inr u))"
proof (intro conjI impI)
  assume "episode c w s = Inr s' \<and>
      list_all (recorded_ok (frame_stack c)) (memory (trainer_memory s))"
  then show "list_all (recorded_ok (frame_stack c)) (memory (trainer_memory s'))"
    using episode_recorded [of c w s s'] by simp
next
  assume "env_step c w steps s = Inr (r, s1) \<and> steps \<le> frame_stack c"
  then show "trainer_memory s1 = trainer_memory s"
    using env_step_no_record [of c w steps s r s1] by simp
next
  assume a: "frame_stack c = 4 \<and> 10 \<le> max_ep_steps c \<and>
      len (trainer_memory t) + 5 \<le> capacity (trainer_memory t) \<and>
      episode c (stub_env 10 v) t = Inr t'"
  then have "len (trainer_memory t') = len (trainer_memory t) + (10 - Suc (frame_stack c))"
    by (intro stub_episode_count [of c 10 v t t']) simp_all
  with a show "len (trainer_memory t') = len (trainer_memory t) + 5" by simp
next
  assume a: "frame_stack c = 4 \<and> 10 \<le> max_ep_steps c \<and>
      len (trainer_memory t) + 5 \<le> capacity (trainer_memory t) \<and>
      int (len (trainer_memory t) + 5) \<le> num_samples_pre c"
  then show "\<exists>u. episode c (stub_env 10 v) t = Inr u"
    by (intro stub_episode_returns [of 10 c t v]) simp_all
qed

theorem warmup_actions_not_recorded_witness:
  "episode default_config (stub_env 10 counting_world) fresh_trainer = Inr stub_episode_result \<and>
   list_all (recorded_ok (frame_stack default_config)) (memory (trainer_memory fresh_trainer)) \<and>
   list_all (recorded_ok (frame_stack default_config))
     (memory (trainer_memory stub_episode_result)) \<and>
   env_step default_config (stub_env 10 counting_world) 2 fresh_trainer =
     Inr (0, fresh_trainer\<lparr>env := 1, frame_stacker := [1], total_steps := 1\<rparr>) \<and>
   (2::nat) \<le> frame_stack default_config \<and>
   trainer_memory (fresh_trainer\<lparr>env := 1, frame_stacker := [1], total_steps := 1\<rparr>) =
     trainer_memory fresh_trainer \<and>
   frame_stack default_config = 4 \<and> 10 \<le> max_ep_steps default_config \<and>
   len (trainer_memory fresh_trainer) + 5 \<le> capacity (trainer_memory fresh_trainer) \<and>
   int (len (trainer_memory fresh_trainer) + 5) \<le> num_samples_pre default_config \<and>
   len (trainer_memory stub_episode_result) = len (trainer_memory fresh_trainer) + 5 \<and>
   len (trainer_memory stub_episode_result) = 5"
proof -
  note T = warmup_actions_not_recorded [of default_config "stub_env 10 counting_world"
      fresh_trainer stub_episode_result 2 0
      "fresh_trainer\<lparr>env := 1, frame_stacker := [1], total_steps := 1\<rparr>"
      fresh_trainer counting_world stub_episode_result]
  have e: "episode default_config (stub_env 10 counting_world) fresh_trainer =
      Inr stub_episode_result" by (rule stub_episode_eval)
  have m0: "memory (trainer_memory fresh_trainer) = []"
    by (simp add: fresh_trainer_def Trainer_init_def ReplayMemory_init_def)
  have c0: "capacity (trainer_memory fresh_trainer) = 50000"
    by (simp add: fresh_trainer_def Trainer_init_def ReplayMemory_init_def default_config_def)
  have cfg: "frame_stack default_config = 4" "10 \<le> max_ep_steps default_config"
    "num_samples_pre default_config = 30000" by (simp_all add: default_config_def)
  have h1: "list_all (recorded_ok (frame_stack default_config))
      (memory (trainer_memory fresh_trainer))" by (simp add: m0)
  from T e h1 have r1: "list_all (recorded_ok (frame_stack default_config))
     (memory (trainer_memory stub_episode_result))" by blast
  have h3: "len (trainer_memory fresh_trainer) + 5 \<le> capacity (trainer_memory fresh_trainer)"
    by (simp add: len_def m0 c0)
  from T e cfg h3
  have r3: "len (trainer_memory stub_episode_result) = len (trainer_memory fresh_trainer) + 5"
    by blast
  have h4: "int (len (trainer_memory fresh_trainer) + 5) \<le> num_samples_pre default_config"
    by (simp add: len_def m0 cfg)
  have w: "env_step default_config (stub_env 10 counting_world) 2 fresh_trainer =
     Inr (0, fresh_trainer\<lparr>env := 1, frame_stacker := [1], total_steps := 1\<rparr>)"
    by (rule warmup_step_eval)
  have h2: "(2::nat) \<le> frame_stack default_config" by (simp add: cfg)
  from T w h2
  have r2: "trainer_memory (fresh_trainer\<lparr>env := 1, frame_stacker := [1], total_steps := 1\<rparr>) =
     trainer_memory fresh_trainer" by blast
  have r4: "len (trainer_memory stub_episode_result) = 5" using r3 by (simp add: len_def m0)
  from e h1 r1 w h2 r2 cfg(1,2) h3 h4 r3 r4 show ?thesis by blast
qed

section \<open>The gate before the learning step\<close>

text \<open>
  C6. The claim says the learning step is performed whenever the memory holds at
  least \<open>num_samples_pre\<close> transitions. With \<open>num_samples_pre = 1\<close> and one
  transition in the memory after the recording, the iteration ends without a
  learning step: epsilon, the online parameters, the optimizer state and the log
  are as before, although the learning step on that state would change them.
\<close>

theorem learning_gate_counterexample:
  "loop_body boundary_config counting_world 5 boundary_state = Inr (1, boundary_after) \<and>
   num_samples_pre boundary_config \<le> int (len (trainer_memory boundary_after)) \<and>
   eps boundary_after = eps boundary_state \<and>
   q_network boundary_after = q_network boundary_state \<and>
   optimizer boundary_after = optimizer boundary_state \<and>
   tb_writer boundary_after = tb_writer boundary_state \<and>
   learn boundary_config counting_world boundary_after = Inr (learned_after\<lparr>q_target := 1\<rparr>) \<and>
   optimizer (learned_after\<lparr>q_target := 1\<rparr>) \<noteq> optimizer boundary_after"
proof -
  have 1: "num_samples_pre boundary_config \<le> int (len (trainer_memory boundary_after))"
    by (simp add: boundary_config_def boundary_after_def len_def)
  have 2: "eps boundary_after = eps boundary_state"
    "q_network boundary_after = q_network boundary_state"
    "optimizer boundary_after = optimizer boundary_state"
    "tb_writer boundary_after = tb_writer boundary_state"
    by (simp_all add: boundary_after_def boundary_state_def Trainer_init_def)
  have 3: "optimizer (learned_after\<lparr>q_target := 1\<rparr>) \<noteq> optimizer boundary_after"
    by (simp add: learned_after_def boundary_after_def)
  from boundary_step_eval 1 2 boundary_learn_eval 3 show ?thesis by (intro conjI)
qed

text \<open>
  C6, amended. On every iteration of the training loop, after the environment step
  and the recording of a transition: the learning step (epsilon update, batch
  sample, loss, optimizer step) is skipped entirely if and only if the replay
  memory holds at most \<open>num_samples_pre\<close> transitions; whenever it holds more than
  \<open>num_samples_pre\<close>, the learning step is performed. Skipped: the iteration is
  the environment step alone and epsilon, both networks, the optimizer, the log and
  the saved models are unchanged. Performed: epsilon is the schedule's value at the
  current step count, the log has one more entry and the online parameters and
  optimizer state are the result of one optimizer step on a sampled batch; an error
  after a successful environment step is raised by the learning step.
\<close>

theorem learning_gate:
  "(loop_body c w steps s = Inr (r, s') \<and>
      int (len (trainer_memory s')) \<le> num_samples_pre c \<longrightarrow>
      env_step c w steps s = Inr (r, s') \<and> eps s' = eps s \<and> q_network s' = q_network s \<and>
      q_target s' = q_target s \<and> optimizer s' = optimizer s \<and> tb_writer s' = tb_writer s \<and>
      saved_models s' = saved_models s) \<and>
   (loop_body c w steps s = Inr (r, s') \<and>
      num_samples_pre c < int (len (trainer_memory s')) \<longrightarrow>
      eps s' = decay (total_steps s') (final_exp_frame c) \<and>
      length (tb_writer s') = Suc (length (tb_writer s)) \<and>
      (\<exists>s1 batch. env_step c w steps s = Inr (r, s1) \<and>
         sample (trainer_memory s1) (batch_size c)
           (rng_sample w (total_steps s1) (len (trainer_memory s1)) (batch_size c))
           = (Inr batch, trainer_memory s1) \<and>
         (q_network s', optimizer s') =
           optimizer_step w (optimizer s) (q_network s) (q_target s) batch)) \<and>
   (env_step c w steps s = Inr (r, s1) \<and> loop_body c w steps s = Inl e \<longrightarrow>
      num_samples_pre c < int (len (trainer_memory s1)) \<and> learn c w s1 = Inl e)"
proof -
  have skip: "loop_body c w steps s = Inr (r, s') \<and>
      int (len (trainer_memory s')) \<le> num_samples_pre c \<longrightarrow>
      env_step c w steps s = Inr (r, s') \<and> eps s' = eps s \<and> q_network s' = q_network s \<and>
      q_target s' = q_target s \<and> optimizer s' = optimizer s \<and> tb_writer s' = tb_writer s \<and>
      saved_models s' = saved_models s"
  proof (rule impI)
    assume a: "loop_body c w steps s = Inr (r, s') \<and>
      int (len (trainer_memory s')) \<le> num_samples_pre c"
    then have e: "env_step c w steps s = Inr (r, s')"
      using loop_body_skip [of c w steps s r s'] by simp
    from env_step_frame [OF e] e
    show "env_step c w steps s = Inr (r, s') \<and> eps s' = eps s \<and> q_network s' = q_network s \<and>
      q_target s' = q_target s \<and> optimizer s' = optimizer s \<and> tb_writer s' = tb_writer s \<and>
      saved_models s' = saved_models s" by simp
  qed
  have perform: "loop_body c w steps s = Inr (r, s') \<and>
      num_samples_pre c < int (len (trainer_memory s')) \<longrightarrow>
      eps s' = decay (total_steps s') (final_exp_frame c) \<and>
      length (tb_writer s') = Suc (length (tb_writer s)) \<and>
      (\<exists>s1 batch. env_step c w steps s = Inr (r, s1) \<and>
         sample (trainer_memory s1) (batch_size c)
           (rng_sample w (total_steps s1) (len (trainer_memory s1)) (batch_size c))
           = (Inr batch, trainer_memory s1) \<and>
         (q_network s', optimizer s') =
           optimizer_step w (optimizer s) (q_network s) (q_target s) batch)"
  proof (rule impI)
    assume a: "loop_body c w steps s = Inr (r, s') \<and>
      num_samples_pre c < int (len (trainer_memory s'))"
    then have body: "loop_body c w steps s = Inr (r, s')" by simp
    from body obtain s1 where e: "env_step c w steps s = Inr (r, s1)"
      and l: "learn c w s1 = Inr s'"
    proof (rule loop_body_cases)
      fix s1
      assume "env_step c w steps s = Inr (r, s1)"
        and "int (len (trainer_memory s1)) \<le> num_samples_pre c" and "s' = s1"
      with a show thesis by simp
    qed
    note f = env_step_frame [OF e]
    from learn_optimizer [OF l] obtain batch where
      b: "sample (trainer_memory s1) (batch_size c)
           (rng_sample w (total_steps s1) (len (trainer_memory s1)) (batch_size c))
           = (Inr batch, trainer_memory s1)"
      and o: "(q_network s', optimizer s') =
           optimizer_step w (optimizer s1) (q_network s1) (q_target s1) batch" by blast
    have 1: "eps s' = decay (total_steps s') (final_exp_frame c)"
      using learn_effect(1) [OF l] learn_frame(4) [OF l] by simp
    have 2: "length (tb_writer s') = Suc (length (tb_writer s))"
      using learn_effect(2) [OF l] f by simp
    from o f have o': "(q_network s', optimizer s') =
           optimizer_step w (optimizer s) (q_network s) (q_target s) batch" by simp
    have 3: "\<exists>s1 batch. env_step c w steps s = Inr (r, s1) \<and>
         sample (trainer_memory s1) (batch_size c)
           (rng_sample w (total_steps s1) (len (trainer_memory s1)) (batch_size c))
           = (Inr batch, trainer_memory s1) \<and>
         (q_network s', optimizer s') =
           optimizer_step w (optimizer s) (q_network s) (q_target s) batch"
      using e b o' by (intro exI [of _ s1] exI [of _ batch] conjI)
    from 1 2 3 show "eps s' = decay (total_steps s') (final_exp_frame c) \<and>
      length (tb_writer s') = Suc (length (tb_writer s)) \<and>
      (\<exists>s1 batch. env_step c w steps s = Inr (r, s1) \<and>
         sample (trainer_memory s1) (batch_size c)
           (rng_sample w (total_steps s1) (len (trainer_memory s1)) (batch_size c))
           = (Inr batch, trainer_memory s1) \<and>
         (q_network s', optimizer s') =
           optimizer_step w (optimizer s) (q_network s) (q_target s) batch)"
      by (intro conjI)
  qed
  have raise: "env_step c w steps s = Inr (r, s1) \<and> loop_body c w steps s = Inl e \<longrightarrow>
      num_samples_pre c < int (len (trainer_memory s1)) \<and> learn c w s1 = Inl e"
    unfolding loop_body_def by (auto split: if_splits sum.splits)
  show ?thesis by (rule conjI [OF skip conjI [OF perform raise]])
qed

theorem learning_gate_witness:
  "loop_body boundary_config counting_world 5 boundary_state = Inr (1, boundary_after) \<and>
   int (len (trainer_memory boundary_after)) \<le> num_samples_pre boundary_config \<and>
   eps boundary_after = eps boundary_state \<and>
   loop_body learning_config counting_world 5 boundary_state = Inr (1, learned_after) \<and>
   num_samples_pre learning_config < int (len (trainer_memory learned_after)) \<and>
   eps learned_after = decay (total_steps learned_after) (final_exp_frame learning_config) \<and>
   length (tb_writer learned_after) = Suc (length (tb_writer boundary_state)) \<and>
   env_step failing_config counting_world 5 boundary_state = Inr (1, boundary_after) \<and>
   loop_body failing_config counting_world 5 boundary_state = Inl ValueError \<and>
   learn failing_config counting_world boundary_after = Inl ValueError"
proof -
  have len_b: "len (trainer_memory boundary_after) = 1"
    by (simp add: boundary_after_def len_def)
  have len_l: "len (trainer_memory learned_after) = 1"
    by (simp add: learned_after_def boundary_after_def len_def)
  have h1: "int (len (trainer_memory boundary_after)) \<le> num_samples_pre boundary_config"
    by (simp add: len_b boundary_config_def)
  have h2: "num_samples_pre learning_config < int (len (trainer_memory learned_after))"
    by (simp add: len_l learning_config_def)
  have r1: "eps boundary_after = eps boundary_state"
    using learning_gate [THEN conjunct1, THEN mp, OF conjI [OF boundary_step_eval h1]]
    by simp
  have r2: "eps learned_after = decay (total_steps learned_after) (final_exp_frame learning_config) \<and>
    length (tb_writer learned_after) = Suc (length (tb_writer boundary_state))"
    using learning_gate [THEN conjunct2, THEN conjunct1, THEN mp,
        OF conjI [OF learning_step_eval h2]]
    by simp
  have r3: "learn failing_config counting_world boundary_after = Inl ValueError"
    using learning_gate [THEN conjunct2, THEN conjunct2, THEN mp,
        OF conjI [OF failing_env_step_eval failing_step_eval]]
    by simp
  from boundary_step_eval h1 r1 learning_step_eval h2 r2 failing_env_step_eval
    failing_step_eval r3 show ?thesis by (intro conjI) simp_all
qed

section \<open>Target network\<close>

text \<open>
  C8. In every iteration of the training loop the target parameters either stay as
  they are or, on a learning step whose step count is a multiple of
  \<open>reset_target\<close>, become a copy of the online parameters (\<^verbatim>\<open>update_target\<close>);
  the online parameters either stay as they are or are the result of the optimizer
  step. \<^verbatim>\<open>update_target\<close> overwrites the target parameters with the online ones
  and leaves the online ones alone, so that right after it the two networks give
  the same output on every input, whatever function \<open>forward\<close> of parameters and
  input the network computes.
\<close>

theorem target_network_sync:
  "(loop_body c w steps s = Inr (r, s') \<longrightarrow>
      q_target s' =
        (if num_samples_pre c < int (len (trainer_memory s')) \<and>
            int (total_steps s') mod reset_target c = 0
         then q_network s' else q_target s) \<and>
      (q_network s' = q_network s \<or>
       (\<exists>batch. q_network s' =
          fst (optimizer_step w (optimizer s) (q_network s) (q_target s) batch)))) \<and>
   q_target (update_target s) = q_network s \<and>
   q_network (update_target s) = q_network s \<and>
   forward (q_target (update_target s)) x = forward (q_network (update_target s)) x"
proof (intro conjI impI)
  assume body: "loop_body c w steps s = Inr (r, s')"
  then show "q_target s' =
        (if num_samples_pre c < int (len (trainer_memory s')) \<and>
            int (total_steps s') mod reset_target c = 0
         then q_network s' else q_target s)"
  proof (rule loop_body_cases)
    fix s1
    assume "env_step c w steps s = Inr (r, s1)"
      and "int (len (trainer_memory s1)) \<le> num_samples_pre c" and "s' = s1"
    then show ?thesis using env_step_frame(3) [of c w steps s r s1] by simp
  next
    fix s1
    assume e: "env_step c w steps s = Inr (r, s1)"
      and g: "num_samples_pre c < int (len (trainer_memory s1))"
      and l: "learn c w s1 = Inr s'"
    from learn_effect(3) [OF l] learn_frame(1,4) [OF l] env_step_frame(3) [OF e] g
    show ?thesis by simp
  qed
  from body show "q_network s' = q_network s \<or>
       (\<exists>batch. q_network s' =
          fst (optimizer_step w (optimizer s) (q_network s) (q_target s) batch))"
  proof (rule loop_body_cases)
    fix s1
    assume "env_step c w steps s = Inr (r, s1)" and "s' = s1"
    then show ?thesis using env_step_frame(2) [of c w steps s r s1] by simp
  next
    fix s1
    assume e: "env_step c w steps s = Inr (r, s1)" and l: "learn c w s1 = Inr s'"
    from learn_optimizer [OF l] obtain batch where
      "(q_network s', optimizer s') =
         optimizer_step w (optimizer s1) (q_network s1) (q_target s1) batch" by blast
    then have "q_network s' =
        fst (optimizer_step w (optimizer s1) (q_network s1) (q_target s1) batch)"
      by (metis fst_conv)
    with env_step_frame [OF e] show ?thesis by auto
  qed
qed (simp_all add: update_target_def)

theorem target_network_sync_witness:
  "loop_body learning_config counting_world 5 boundary_state = Inr (1, learned_after) \<and>
   q_target boundary_state = 1 \<and> q_network boundary_state = 5 \<and>
   q_target learned_after = 6 \<and> q_network learned_after = 6"
proof -
  have "q_target learned_after =
        (if num_samples_pre learning_config < int (len (trainer_memory learned_after)) \<and>
            int (total_steps learned_after) mod reset_target learning_config = 0
         then q_network learned_after else q_target boundary_state)"
    using target_network_sync [THEN conjunct1, THEN mp, OF learning_step_eval]
    by (rule conjunct1)
  moreover have "q_network learned_after = 6" by (simp add: learned_after_def)
  moreover have "num_samples_pre learning_config < int (len (trainer_memory learned_after))"
    by (simp add: learning_config_def learned_after_def boundary_after_def len_def)
  moreover have "int (total_steps learned_after) mod reset_target learning_config = 0"
    by (simp add: learning_config_def)
  ultimately have "q_target learned_after = 6" by simp
  moreover have "q_target boundary_state = 1" "q_network boundary_state = 5"
    "q_network learned_after = 6"
    by (simp_all add: boundary_state_def Trainer_init_def learned_after_def)
  ultimately show ?thesis using learning_step_eval by (intro conjI)
qed

section \<open>Epsilon during the pre-fill phase\<close>

text \<open>
  C10. A loop iteration after which the memory holds at most \<open>num_samples_pre\<close>
  transitions leaves epsilon unchanged, and after any number of episodes from a
  newly constructed trainer, if the memory still holds at most \<open>num_samples_pre\<close>
  transitions, epsilon is still its initial 1, whatever the total step count. So
  epsilon need not be the schedule's value at the current step count: after the
  ten-step episode on the stub environment it is 1 at step count 10.
\<close>

theorem prefill_keeps_eps:
  "(loop_body c w steps s = Inr (r, t) \<and>
      int (len (trainer_memory t)) \<le> num_samples_pre c \<longrightarrow> eps t = eps s) \<and>
   (run_experiment c w n (Trainer_init c e online target opt) = Inr s' \<and>
      int (len (trainer_memory s')) \<le> num_samples_pre c \<longrightarrow> eps s' = 1) \<and>
   run_experiment default_config (stub_env 10 counting_world) 1 fresh_trainer
     = Inr stub_episode_result \<and>
   total_steps stub_episode_result = 10 \<and>
   eps stub_episode_result \<noteq>
     decay (total_steps stub_episode_result) (final_exp_frame default_config)"
proof (intro conjI impI)
  assume a: "loop_body c w steps s = Inr (r, t) \<and>
      int (len (trainer_memory t)) \<le> num_samples_pre c"
  then have "env_step c w steps s = Inr (r, t)"
    using loop_body_skip [of c w steps s r t] by simp
  then show "eps t = eps s" by (rule env_step_frame)
next
  assume a: "run_experiment c w n (Trainer_init c e online target opt) = Inr s' \<and>
      int (len (trainer_memory s')) \<le> num_samples_pre c"
  then show "eps s' = 1"
    by (auto dest!: run_experiment_prefill_eps simp: Trainer_init_def)
next
  show "run_experiment default_config (stub_env 10 counting_world) 1 fresh_trainer
     = Inr stub_episode_result"
    by (simp add: stub_episode_eval)
  show "total_steps stub_episode_result = 10" by (simp add: stub_episode_result_def)
  show "eps stub_episode_result \<noteq>
     decay (total_steps stub_episode_result) (final_exp_frame default_config)"
    by (simp add: stub_episode_result_def default_config_def decay_def)
qed

theorem prefill_keeps_eps_witness:
  "loop_body boundary_config counting_world 5 boundary_state = Inr (1, boundary_after) \<and>
   int (len (trainer_memory boundary_after)) \<le> num_samples_pre boundary_config \<and>
   eps boundary_after = eps boundary_state \<and>
   run_experiment default_config (stub_env 10 counting_world) 1
     (Trainer_init default_config 0 5 1 0) = Inr stub_episode_result \<and>
   int (len (trainer_memory stub_episode_result)) \<le> num_samples_pre default_config \<and>
   eps stub_episode_result = 1"
proof -
  have h1: "int (len (trainer_memory boundary_after)) \<le> num_samples_pre boundary_config"
    by (simp add: boundary_after_def len_def boundary_config_def)
  have run: "run_experiment default_config (stub_env 10 counting_world) 1
     (Trainer_init default_config 0 5 1 0) = Inr stub_episode_result"
    using stub_episode_eval by (simp add: fresh_trainer_def)
  have h2: "int (len (trainer_memory stub_episode_result)) \<le> num_samples_pre default_config"
    by (simp add: stub_episode_result_def len_def default_config_def)
  have r1: "eps boundary_after = eps boundary_state"
    using prefill_keeps_eps [THEN conjunct1, THEN mp, OF conjI [OF boundary_step_eval h1]] .
  have r2: "eps stub_episode_result = 1"
    using prefill_keeps_eps [THEN conjunct2, THEN conjunct1, THEN mp, OF conjI [OF run h2]] .
  from boundary_step_eval h1 r1 run h2 r2 show ?thesis by (intro conjI)
qed

end
